theory Spec2Isabelle
  imports Complex_Main
begin

section \<open>Continuous regression of \<open>mne/stats/regression.py\<close>\<close>

text \<open>
  The theory embeds \<open>regress_continuous\<close> (lines 139 to 289 of
  \<open>mne/stats/regression.py\<close>). Python exceptions are values of the type \<open>error\<close>,
  and every statement that can raise returns \<open>error + 'a\<close> with \<open>Inl\<close> for the
  exception. Python floats are read as rationals wherever they are only stored and
  compared with zero; every floating-point operation of the code (the product
  \<open>tmin * sfreq\<close>, the quotient \<open>tmin_ / sfreq\<close>, \<open>np.dot\<close>, \<open>linalg.inv\<close>) is a
  field of the record \<open>externals\<close>, so that no theorem depends on how rounding is done.
\<close>

subsection \<open>Exceptions and name resolution\<close>

datatype error =
    NameError string
  | UnboundLocalError string
  | AttributeError string
  | TypeError string
  | KeyError string
  | ValueError string
  | IndexError string
  | LinAlgError string

text \<open>
  The names the module binds at import time (lines 7 to 18, and the three \<open>def\<close>s).
  \<open>from scipy import linalg\<close> binds \<open>linalg\<close> only.
\<close>

definition module_globals :: "string list" where
  "module_globals =
     [''namedtuple'', ''isgenerator'', ''warnings'', ''np'', ''linalg'',
      ''SourceEstimate'', ''_BaseEpochs'', ''Evoked'', ''EvokedArray'', ''logger'',
      ''pick_types'', ''linear_regression'', ''_fit_lm'', ''regress_continuous'']"

text \<open>Evaluating a global name: it is bound, or the evaluation raises NameError.\<close>

definition global_name :: "string list \<Rightarrow> string \<Rightarrow> error + unit" where
  "global_name genv n = (if n \<in> set genv then Inr () else Inl (NameError n))"

text \<open>Sequencing of statements that can raise.\<close>

definition and_then :: "error + 'a \<Rightarrow> ('a \<Rightarrow> error + 'b) \<Rightarrow> error + 'b" where
  "and_then r f = (case r of Inl e \<Rightarrow> Inl e | Inr x \<Rightarrow> f x)"

subsection \<open>Inputs\<close>

type_synonym matrix = "rat list list"

record raw =
  info_sfreq :: rat
  raw_data :: matrix
  raw_times :: "rat list"

text \<open>The value of a key of \<open>event_id\<close>: one integer or a list-like of integers.\<close>

datatype event_ids = OneId int | ManyIds "int list"

text \<open>
  \<open>tmin\<close> and \<open>tmax\<close>: a number (float or int), a dict whose values are numbers or
  None, or None itself (the docstring allows all three for \<open>tmin\<close>).
\<close>

datatype window_spec =
    Seconds rat
  | PerCond "(string \<times> rat option) list"
  | NoWindow

datatype reject_spec =
    RejectNone
  | RejectBool bool
  | RejectDict "(string \<times> rat) list"

record call_args =
  arg_raw :: raw
  arg_events :: "(int \<times> int \<times> int) list"
  arg_event_id :: "(string \<times> event_ids) list option"
  arg_tmin :: window_spec
  arg_tmax :: window_spec
  arg_covariates :: "(string \<times> rat list) list option"
  arg_reject :: reject_spec
  arg_tstep :: "rat option"

text \<open>
  The library operations the function calls and the helper \<open>_reject_data_segments\<close>
  of \<open>mne.utils\<close>, which is not part of the source file: \<open>fmul\<close> and \<open>fdiv\<close> are the
  float product and quotient, \<open>np_dot\<close> the matrix product, \<open>linalg_inv\<close> the matrix
  inverse of SciPy (it raises on a matrix it finds singular), \<open>reject_data_segments\<close>
  returns the sample ranges to drop from the data, the thresholds and the window length.
\<close>

record externals =
  fmul :: "rat \<Rightarrow> rat \<Rightarrow> rat"
  fdiv :: "rat \<Rightarrow> rat \<Rightarrow> rat"
  np_dot :: "matrix \<Rightarrow> matrix \<Rightarrow> matrix"
  linalg_inv :: "matrix \<Rightarrow> error + matrix"
  reject_data_segments :: "matrix \<Rightarrow> (string \<times> rat) list \<Rightarrow> rat \<Rightarrow> (nat \<times> nat) list"

subsection \<open>Window resolution (lines 203 to 214)\<close>

text \<open>\<open>int(x)\<close> on a float truncates toward zero.\<close>

definition py_int :: "rat \<Rightarrow> int" where
  "py_int x = (if 0 \<le> x then \<lfloor>x\<rfloor> else \<lceil>x\<rceil>)"

text \<open>\<open>event_id.keys()\<close>: the default \<open>event_id=None\<close> has no such attribute.\<close>

definition event_id_keys :: "(string \<times> event_ids) list option \<Rightarrow> error + string list" where
  "event_id_keys event_id =
     (case event_id of
        None \<Rightarrow> Inl (AttributeError ''keys'')
      | Some d \<Rightarrow> Inr (map fst d))"

text \<open>Lines 203 to 205.\<close>

definition conds_of :: "call_args \<Rightarrow> error + string list" where
  "conds_of a =
     and_then (event_id_keys (arg_event_id a)) (\<lambda>ks.
       case arg_covariates a of
         None \<Rightarrow> Inr ks
       | Some cov \<Rightarrow> Inr (ks @ map fst cov))"

text \<open>
  A dict comprehension \<open>{cond: f(cond) for cond in keys}\<close>: the keys are visited in
  order, a later duplicate overwrites, the first exception ends the comprehension.
\<close>

fun dict_comp :: "(string \<Rightarrow> error + int) \<Rightarrow> string list \<Rightarrow> (string \<rightharpoonup> int)
    \<Rightarrow> error + (string \<rightharpoonup> int)" where
  "dict_comp f [] acc = Inr acc"
| "dict_comp f (c # cs) acc =
     (case f c of Inl e \<Rightarrow> Inl e | Inr v \<Rightarrow> dict_comp f cs (acc(c \<mapsto> v)))"

text \<open>
  \<open>int(spec.get(cond, default) * sfreq)\<close> for one condition: a key that is present
  with the value None gives \<open>None * sfreq\<close>, a TypeError; \<open>None.get\<close> is an
  AttributeError.
\<close>

fun window_samples :: "(rat \<Rightarrow> rat \<Rightarrow> rat) \<Rightarrow> rat \<Rightarrow> rat \<Rightarrow> window_spec \<Rightarrow> string
    \<Rightarrow> error + int" where
  "window_samples mul sf dflt (Seconds s) cond = Inr (py_int (mul s sf))"
| "window_samples mul sf dflt (PerCond d) cond =
     (case map_of d cond of
        None \<Rightarrow> Inr (py_int (mul dflt sf))
      | Some None \<Rightarrow> Inl (TypeError ''unsupported operand type(s) for *'')
      | Some (Some s) \<Rightarrow> Inr (py_int (mul s sf)))"
| "window_samples mul sf dflt NoWindow cond = Inl (AttributeError ''get'')"

text \<open>
  Lines 207 to 210: both forms of \<open>tmin\<close> range over \<open>conds\<close>; the default is
  \<open>-.1\<close>.
\<close>

definition resolve_tmin :: "(rat \<Rightarrow> rat \<Rightarrow> rat) \<Rightarrow> rat \<Rightarrow> string list \<Rightarrow> window_spec
    \<Rightarrow> error + (string \<rightharpoonup> int)" where
  "resolve_tmin mul sf conds spec =
     dict_comp (window_samples mul sf (- 1 / 10) spec) conds Map.empty"

text \<open>
  Lines 211 to 214: the scalar form of \<open>tmax\<close> ranges over \<open>event_id.keys()\<close>, the
  dict form over \<open>conds\<close>; the default is \<open>1\<close>.
\<close>

definition resolve_tmax :: "(rat \<Rightarrow> rat \<Rightarrow> rat) \<Rightarrow> rat \<Rightarrow> string list \<Rightarrow> string list
    \<Rightarrow> window_spec \<Rightarrow> error + (string \<rightharpoonup> int)" where
  "resolve_tmax mul sf keys conds spec =
     (case spec of
        Seconds s \<Rightarrow> dict_comp (window_samples mul sf 1 spec) keys Map.empty
      | _ \<Rightarrow> dict_comp (window_samples mul sf 1 spec) conds Map.empty)"

text \<open>
  Lines 207 to 214. \<open>mul\<close> is the float product; \<open>keys\<close> is \<open>event_id.keys()\<close>.
\<close>

definition resolve_windows :: "(rat \<Rightarrow> rat \<Rightarrow> rat) \<Rightarrow> call_args \<Rightarrow> string list \<Rightarrow> string list
    \<Rightarrow> error + (string \<rightharpoonup> int) \<times> (string \<rightharpoonup> int)" where
  "resolve_windows mul a keys conds =
     and_then (resolve_tmin mul (info_sfreq (arg_raw a)) conds (arg_tmin a)) (\<lambda>tmin.
     and_then (resolve_tmax mul (info_sfreq (arg_raw a)) keys conds (arg_tmax a)) (\<lambda>tmax.
       Inr (tmin, tmax)))"

subsection \<open>NumPy and SciPy operations on vectors\<close>

text \<open>\<open>np.zeros(n)\<close>: a negative length is refused.\<close>

definition np_zeros :: "int \<Rightarrow> error + rat list" where
  "np_zeros n =
     (if n < 0 then Inl (ValueError ''negative dimensions are not allowed'')
      else Inr (replicate (nat n) 0))"

text \<open>
  An integer index into an array of length \<open>n\<close>: an index in \<open>[-n, 0)\<close> counts from
  the end, an index outside \<open>[-n, n)\<close> raises IndexError.
\<close>

definition np_index :: "nat \<Rightarrow> int \<Rightarrow> error + nat" where
  "np_index n i =
     (if 0 \<le> i \<and> i < int n then Inr (nat i)
      else if - int n \<le> i \<and> i < 0 then Inr (nat (int n + i))
      else Inl (IndexError ''index is out of bounds for axis 0''))"

text \<open>\<open>xs[i] = v\<close>.\<close>

definition np_setitem :: "rat list \<Rightarrow> int \<Rightarrow> rat \<Rightarrow> error + rat list" where
  "np_setitem xs i v = and_then (np_index (length xs) i) (\<lambda>j. Inr (xs[j := v]))"

text \<open>
  \<open>xs[idx] = v\<close> for an integer index array \<open>idx\<close>: every position is set to
  \<open>v\<close>, one index out of bounds raises IndexError. An empty index array writes
  nothing; that is the NumPy of the time of the code, later versions refuse the float
  array that \<open>np.asarray([])\<close> gives, and no statement below relies on the empty
  case of a binary condition.
\<close>

fun np_setitems :: "rat list \<Rightarrow> int list \<Rightarrow> rat \<Rightarrow> error + rat list" where
  "np_setitems xs [] v = Inr xs"
| "np_setitems xs (i # idx) v =
     and_then (np_setitem xs i v) (\<lambda>xs'. np_setitems xs' idx v)"

text \<open>
  \<open>np.nonzero(x)\<close> returns a tuple with one index array per dimension; for a
  vector the tuple has one component.
\<close>

definition np_nonzero :: "rat list \<Rightarrow> nat list list" where
  "np_nonzero xs = [filter (\<lambda>i. xs ! i \<noteq> 0) [0..<length xs]]"

text \<open>
  \<open>scipy.linalg.toeplitz(c, r)\<close>: first column \<open>c\<close>, first row \<open>r\<close> (whose first
  entry is ignored), constant along each diagonal.
\<close>

definition toeplitz :: "rat list \<Rightarrow> rat list \<Rightarrow> matrix" where
  "toeplitz c r =
     map (\<lambda>t. map (\<lambda>l. if l \<le> t then c ! (t - l) else r ! (l - t)) [0..<length r])
       [0..<length c]"

subsection \<open>The predictor loop (lines 223 to 245)\<close>

definition dict_item :: "(string \<rightharpoonup> 'v) \<Rightarrow> string \<Rightarrow> error + 'v" where
  "dict_item d k = (case d k of None \<Rightarrow> Inl (KeyError k) | Some v \<Rightarrow> Inr v)"

text \<open>Lines 230 and 231.\<close>

fun ids_of :: "event_ids \<Rightarrow> int list" where
  "ids_of (OneId i) = [i]"
| "ids_of (ManyIds l) = l"

text \<open>Lines 232 and 233: the onsets of the events of the condition, shifted by \<open>tmin_\<close>.\<close>

definition binary_index :: "(int \<times> int \<times> int) list \<Rightarrow> int list \<Rightarrow> int \<Rightarrow> int list" where
  "binary_index events ids tmin' =
     map (\<lambda>t. t + tmin') [t. (t, d, e) \<leftarrow> events, e \<in> set ids]"

definition binary_samples :: "(int \<times> int \<times> int) list \<Rightarrow> int list \<Rightarrow> int \<Rightarrow> rat list
    \<Rightarrow> error + rat list" where
  "binary_samples events ids tmin' samples =
     np_setitems samples (binary_index events ids tmin') 1"

text \<open>Lines 236 to 238: the message carries the name of the condition.\<close>

definition length_message :: "string \<Rightarrow> string" where
  "length_message cond =
     ''Condition '' @ cond @ '' from covariates is not the same length as events''"

text \<open>Lines 239 and 240: one write per event, in the order of the events.\<close>

fun covariate_loop :: "rat list \<Rightarrow> (int \<times> rat) list \<Rightarrow> int \<Rightarrow> error + rat list" where
  "covariate_loop samples [] tmin' = Inr samples"
| "covariate_loop samples ((tx, v) # rest) tmin' =
     and_then (np_setitem samples (tx + tmin') v) (\<lambda>s. covariate_loop s rest tmin')"

text \<open>Lines 235 to 240.\<close>

definition covariate_samples :: "(int \<times> int \<times> int) list \<Rightarrow> rat list \<Rightarrow> string \<Rightarrow> int
    \<Rightarrow> rat list \<Rightarrow> error + rat list" where
  "covariate_samples events cov cond tmin' samples =
     (if length cov \<noteq> length events then Inl (ValueError (length_message cond))
      else covariate_loop samples (zip (map fst events) cov) tmin')"

text \<open>Lines 229 to 240: the indicator vector of one condition.\<close>

definition indicator :: "call_args \<Rightarrow> (string \<times> event_ids) list \<Rightarrow> string \<Rightarrow> int
    \<Rightarrow> rat list \<Rightarrow> error + rat list" where
  "indicator a event_id cond tmin' samples =
     (case map_of event_id cond of
        Some v \<Rightarrow> binary_samples (arg_events a) (ids_of v) tmin' samples
      | None \<Rightarrow>
          (case arg_covariates a of
             None \<Rightarrow> Inl (TypeError ''NoneType object is not subscriptable'')
           | Some covariates \<Rightarrow>
               and_then (dict_item (map_of covariates) cond) (\<lambda>cov.
                 covariate_samples (arg_events a) cov cond tmin' samples)))"

text \<open>Line 241.\<close>

definition cond_length_of :: "rat list \<Rightarrow> nat" where
  "cond_length_of samples = length (np_nonzero samples)"

text \<open>
  The body of the loop over \<open>conds\<close> (lines 224 to 245) for one condition: it gives
  the entry of \<open>cond_length\<close> and the array appended to \<open>pred_arrays\<close>.
\<close>

definition cond_step :: "string list \<Rightarrow> call_args \<Rightarrow> (string \<times> event_ids) list
    \<Rightarrow> (string \<rightharpoonup> int) \<Rightarrow> (string \<rightharpoonup> int) \<Rightarrow> string \<Rightarrow> error + nat \<times> matrix" where
  "cond_step genv a event_id tmin tmax cond =
     and_then (dict_item tmin cond) (\<lambda>tmin'.
     and_then (dict_item tmax cond) (\<lambda>tmax'.
     and_then (global_name genv ''np'') (\<lambda>_.
     and_then (np_zeros (int (length (raw_times (arg_raw a))))) (\<lambda>samples0.
     and_then (np_zeros (tmax' - tmin')) (\<lambda>lags.
     and_then (indicator a event_id cond tmin' samples0) (\<lambda>samples.
     and_then (global_name genv ''scipy'') (\<lambda>_.
       Inr (cond_length_of samples, toeplitz samples lags))))))))"

fun cond_loop :: "string list \<Rightarrow> call_args \<Rightarrow> (string \<times> event_ids) list
    \<Rightarrow> (string \<rightharpoonup> int) \<Rightarrow> (string \<rightharpoonup> int) \<Rightarrow> string list
    \<Rightarrow> (string \<rightharpoonup> nat) \<Rightarrow> matrix list \<Rightarrow> error + (string \<rightharpoonup> nat) \<times> matrix list" where
  "cond_loop genv a event_id tmin tmax [] cond_length pred_arrays =
     Inr (cond_length, pred_arrays)"
| "cond_loop genv a event_id tmin tmax (cond # rest) cond_length pred_arrays =
     (case cond_step genv a event_id tmin tmax cond of
        Inl e \<Rightarrow> Inl e
      | Inr (n, m) \<Rightarrow>
          cond_loop genv a event_id tmin tmax rest
            (cond_length(cond \<mapsto> n)) (pred_arrays @ [m]))"

subsection \<open>Design matrix, rejection and solve (lines 247 to 276)\<close>

text \<open>
  \<open>np.hstack(pred_arrays)\<close> for arrays of \<open>n\<close> rows each: the rows are joined side
  by side; an empty list of arrays is refused. The code keeps the transpose
  \<open>big_arr\<close> and reads it through \<open>big_arr.T\<close> and \<open>big_arr[:, has_val]\<close>; the
  model keeps the rows of \<open>big_arr.T\<close>.
\<close>

definition np_hstack :: "nat \<Rightarrow> matrix list \<Rightarrow> error + matrix" where
  "np_hstack n ms =
     (if ms = [] then Inl (ValueError ''need at least one array to concatenate'')
      else Inr (map (\<lambda>t. concat (map (\<lambda>m. m ! t) ms)) [0..<n]))"

text \<open>Lines 249 and 250.\<close>

definition has_val_of :: "matrix \<Rightarrow> bool list" where
  "has_val_of rows = map (\<lambda>line. 0 < length (hd (np_nonzero line))) rows"

text \<open>
  Lines 253 to 262: with \<open>reject\<close> not None the import binds the local name
  \<open>_reject_data_segments\<close>, a \<open>reject\<close> that is no dict is replaced by the default
  thresholds, and a missing \<open>tstep\<close> becomes 1.0. With \<open>reject\<close> None nothing is
  bound and nothing changes. The result is the binding of the local name (if any),
  \<open>reject\<close> and \<open>tstep\<close>.
\<close>

definition default_reject :: "(string \<times> rat) list" where
  "default_reject =
     [(''grad'', 4000 / 10 ^ 12), (''mag'', 4 / 10 ^ 11), (''eeg'', 40 / 10 ^ 5),
      (''eog'', 250 / 10 ^ 5)]"

definition reject_block :: "externals \<Rightarrow> reject_spec \<Rightarrow> rat option
    \<Rightarrow> (matrix \<Rightarrow> (string \<times> rat) list \<Rightarrow> rat \<Rightarrow> (nat \<times> nat) list) option
       \<times> (string \<times> rat) list option \<times> rat option" where
  "reject_block ext reject tstep =
     (case reject of
        RejectNone \<Rightarrow> (None, None, tstep)
      | RejectBool b \<Rightarrow>
          (Some (reject_data_segments ext), Some default_reject,
           Some (case tstep of None \<Rightarrow> 1 | Some t \<Rightarrow> t))
      | RejectDict d \<Rightarrow>
          (Some (reject_data_segments ext), Some d,
           Some (case tstep of None \<Rightarrow> 1 | Some t \<Rightarrow> t)))"

text \<open>
  Lines 264 and 265 are outside the \<open>if\<close>: the local name is read whether it was
  bound or not, and reading an unbound local raises UnboundLocalError.
\<close>

definition rejected_inds :: "externals \<Rightarrow> matrix \<Rightarrow> reject_spec \<Rightarrow> rat option
    \<Rightarrow> error + (nat \<times> nat) list" where
  "rejected_inds ext data reject tstep =
     (case reject_block ext reject tstep of
        (Some f, Some thresholds, Some step) \<Rightarrow> Inr (f data thresholds step)
      | _ \<Rightarrow> Inl (UnboundLocalError ''_reject_data_segments''))"

text \<open>Lines 266 and 267: \<open>has_val[t0:t1] = False\<close>.\<close>

definition clear_range :: "nat \<times> nat \<Rightarrow> bool list \<Rightarrow> bool list" where
  "clear_range r has_val =
     map (\<lambda>i. if fst r \<le> i \<and> i < snd r then False else has_val ! i) [0..<length has_val]"

text \<open>Indexing with a boolean mask keeps the entries whose flag is set.\<close>

definition select :: "bool list \<Rightarrow> 'a list \<Rightarrow> 'a list" where
  "select flags xs = map snd (filter fst (zip flags xs))"

text \<open>
  Lines 269 and 270: the rows of \<open>X\<close> are the selected rows of \<open>big_arr.T\<close> with
  the intercept 1 appended.
\<close>

definition design_matrix :: "matrix \<Rightarrow> bool list \<Rightarrow> matrix" where
  "design_matrix rows has_val = map (\<lambda>row. row @ [1]) (select has_val rows)"

text \<open>
  Lines 275 and 276: \<open>np.dot\<close> is looked up first, then its first argument
  evaluates \<open>scipy\<close>.
\<close>

definition solve :: "string list \<Rightarrow> externals \<Rightarrow> matrix \<Rightarrow> matrix \<Rightarrow> error + matrix" where
  "solve genv ext X Y =
     and_then (global_name genv ''np'') (\<lambda>_.
     and_then (global_name genv ''scipy'') (\<lambda>_.
     and_then (linalg_inv ext (np_dot ext (transpose X) X)) (\<lambda>xtx_inv.
       Inr (transpose (np_dot ext xtx_inv (np_dot ext (transpose X) (transpose Y)))))))"

subsection \<open>Responses (lines 279 to 289)\<close>

text \<open>What the call \<open>mne.EvokedArray(...)\<close> receives.\<close>

record evoked =
  ev_data :: matrix
  ev_tmin :: rat
  ev_comment :: string
  ev_nave :: nat
  ev_kind :: string

fun build_ev_dict :: "string list \<Rightarrow> externals \<Rightarrow> rat \<Rightarrow> matrix \<Rightarrow> (string \<rightharpoonup> int)
    \<Rightarrow> (string \<rightharpoonup> int) \<Rightarrow> (string \<rightharpoonup> nat) \<Rightarrow> string list \<Rightarrow> nat \<Rightarrow> (string \<rightharpoonup> evoked)
    \<Rightarrow> error + (string \<rightharpoonup> evoked)" where
  "build_ev_dict genv ext sf coefs tmin tmax cond_length [] cum ev_dict = Inr ev_dict"
| "build_ev_dict genv ext sf coefs tmin tmax cond_length (cond # rest) cum ev_dict =
     and_then (dict_item tmin cond) (\<lambda>tmin'.
     and_then (dict_item tmax cond) (\<lambda>tmax'.
     and_then (global_name genv ''mne'') (\<lambda>_.
     and_then (dict_item cond_length cond) (\<lambda>nave.
       build_ev_dict genv ext sf coefs tmin tmax cond_length rest
         (cum + nat (tmax' - tmin'))
         (ev_dict(cond \<mapsto>
            \<lparr>ev_data = map (\<lambda>row. take (nat (tmax' - tmin')) (drop cum row)) coefs,
             ev_tmin = fdiv ext (of_int tmin') sf,
             ev_comment = cond,
             ev_nave = nave,
             ev_kind = ''mean''\<rparr>))))))"

subsection \<open>The function\<close>

text \<open>
  \<open>genv\<close> is the set of names bound in the module when the function runs; the
  module as written gives \<open>module_globals\<close>.
\<close>

definition regress_continuous :: "string list \<Rightarrow> externals \<Rightarrow> call_args
    \<Rightarrow> error + (string \<rightharpoonup> evoked)" where
  "regress_continuous genv ext a =
     and_then (event_id_keys (arg_event_id a)) (\<lambda>keys.
     and_then (conds_of a) (\<lambda>conds.
     and_then (resolve_windows (fmul ext) a keys conds) (\<lambda>(tmin, tmax).
     and_then (cond_loop genv a (the (arg_event_id a)) tmin tmax conds Map.empty [])
       (\<lambda>(cond_length, pred_arrays).
     and_then (global_name genv ''np'') (\<lambda>_.
     and_then (np_hstack (length (raw_times (arg_raw a))) pred_arrays) (\<lambda>rows.
     and_then (rejected_inds ext (raw_data (arg_raw a)) (arg_reject a) (arg_tstep a))
       (\<lambda>inds.
     let has_val = fold clear_range inds (has_val_of rows);
         X = design_matrix rows has_val;
         Y = map (select has_val) (raw_data (arg_raw a))
     in
     and_then (solve genv ext X Y) (\<lambda>coefs.
       build_ev_dict genv ext (info_sfreq (arg_raw a)) coefs tmin tmax cond_length
         conds 0 Map.empty))))))))"

subsection \<open>Vocabulary of the statements\<close>

text \<open>
  A window spec is numeric when it is a number, or a dict none of whose values is None.
\<close>

fun numeric_spec :: "window_spec \<Rightarrow> bool" where
  "numeric_spec (Seconds s) = True"
| "numeric_spec (PerCond d) = (None \<notin> snd ` set d)"
| "numeric_spec NoWindow = False"

text \<open>
  The seconds that a numeric window spec gives a condition: the scalar, or the entry of
  the condition, or the default for a condition without an entry.
\<close>

fun seconds_for :: "window_spec \<Rightarrow> rat \<Rightarrow> string \<Rightarrow> rat" where
  "seconds_for (Seconds s) dflt cond = s"
| "seconds_for (PerCond d) dflt cond =
     (case map_of d cond of Some (Some s) \<Rightarrow> s | _ \<Rightarrow> dflt)"
| "seconds_for NoWindow dflt cond = dflt"

text \<open>The conditions that the resolved \<open>tmax\<close> covers (line 212 against line 214).\<close>

fun tmax_conds :: "window_spec \<Rightarrow> string list \<Rightarrow> string list \<Rightarrow> string list" where
  "tmax_conds (Seconds s) keys conds = keys"
| "tmax_conds spec keys conds = conds"

subsection \<open>Concrete calls\<close>

text \<open>
  A recording of 1000 samples at 100 Hz with one channel, one condition \<open>a\<close> with
  events at the samples 100, 500 and 900, and the window from -0.1 s to 0.5 s (from
  -10 to 50 samples).
\<close>

definition scenario :: call_args where
  "scenario =
     \<lparr>arg_raw = \<lparr>info_sfreq = 100, raw_data = [replicate 1000 0],
                 raw_times = replicate 1000 0\<rparr>,
      arg_events = [(100, 0, 1), (500, 0, 1), (900, 0, 1)],
      arg_event_id = Some [(''a'', OneId 1)],
      arg_tmin = Seconds (- 1 / 10),
      arg_tmax = Seconds (1 / 2),
      arg_covariates = None,
      arg_reject = RejectBool True,
      arg_tstep = None\<rparr>"

text \<open>The same call with rejection disabled.\<close>

definition scenario_no_reject :: call_args where
  "scenario_no_reject = scenario\<lparr>arg_reject := RejectNone\<rparr>"

text \<open>The same call with a window that starts and ends at 0.5 s.\<close>

definition flat_window :: call_args where
  "flat_window = scenario\<lparr>arg_tmin := Seconds (1 / 2)\<rparr>"

text \<open>
  Ten events of the condition \<open>a\<close> in a recording of 200 samples, the default window
  (-0.1 s to 1 s), and a covariate \<open>c\<close> with five values.
\<close>

definition short_covariate :: call_args where
  "short_covariate =
     \<lparr>arg_raw = \<lparr>info_sfreq = 100, raw_data = [replicate 200 0],
                 raw_times = replicate 200 0\<rparr>,
      arg_events = [(10, 0, 1), (20, 0, 1), (30, 0, 1), (40, 0, 1), (50, 0, 1),
                    (60, 0, 1), (70, 0, 1), (80, 0, 1), (90, 0, 1), (100, 0, 1)],
      arg_event_id = Some [(''a'', OneId 1)],
      arg_tmin = Seconds (- 1 / 10),
      arg_tmax = Seconds 1,
      arg_covariates = Some [(''c'', [1, 2, 3, 4, 5])],
      arg_reject = RejectBool True,
      arg_tstep = None\<rparr>"


text \<open>
  The call of \<open>scenario\<close> with a window that starts 0.125 s before the event, that
  is 12.5 samples; both numbers are binary fractions, so the float product is exact.
\<close>

definition half_sample :: call_args where
  "half_sample = scenario\<lparr>arg_tmin := Seconds (- 1 / 8)\<rparr>"

text \<open>
  A recording of 6 samples at 1 Hz with two events of the condition \<open>a\<close>, at the
  samples 1 and 3, and the window from 0 s to 2 s.
\<close>

definition tiny_call :: call_args where
  "tiny_call =
     \<lparr>arg_raw = \<lparr>info_sfreq = 1, raw_data = [[0, 1, 2, 1, 2, 0]],
                 raw_times = [0, 1, 2, 3, 4, 5]\<rparr>,
      arg_events = [(1, 0, 1), (3, 0, 1)],
      arg_event_id = Some [(''a'', OneId 1)],
      arg_tmin = Seconds 0,
      arg_tmax = Seconds 2,
      arg_covariates = None,
      arg_reject = RejectBool True,
      arg_tstep = None\<rparr>"

subsection \<open>Vocabulary for the solve\<close>

text \<open>
  The exact product of a matrix with a vector. A design matrix whose product with a
  nonzero vector is zero is rank-deficient, and its normal equations are singular.
\<close>

definition mat_vec :: "matrix \<Rightarrow> rat list \<Rightarrow> rat list" where
  "mat_vec M v = map (\<lambda>row. sum_list (map2 (*) row v)) M"

text \<open>
  The time-locked average of one channel over the events of a condition, in the words
  of section 8 of the spec: for every lag of the window, the mean over the events of
  the signal at onset + tmin_samples + lag. It is meant for windows that lie inside the
  recording.
\<close>

definition time_locked_average :: "rat list \<Rightarrow> int list \<Rightarrow> int \<Rightarrow> int \<Rightarrow> rat list" where
  "time_locked_average signal onsets lo hi =
     map (\<lambda>l. sum_list (map (\<lambda>t. signal ! nat (t + lo + int l)) onsets)
                / of_nat (length onsets))
       [0..<nat (hi - lo)]"


section \<open>Properties\<close>

subsection \<open>Sequencing and name resolution\<close>

lemma and_then_Inl [simp]: "and_then (Inl e) f = Inl e"
  by (simp add: and_then_def)

lemma and_then_Inr [simp]: "and_then (Inr x) f = f x"
  by (simp add: and_then_def)

lemma and_then_eq_Inr: "and_then r f = Inr y \<longleftrightarrow> (\<exists>x. r = Inr x \<and> f x = Inr y)"
  by (cases r) simp_all

lemma never_Inr: "(\<And>y. r \<noteq> Inr y) \<Longrightarrow> \<exists>e. r = Inl e"
  by (cases r) auto

lemma scipy_unbound: "global_name module_globals ''scipy'' = Inl (NameError ''scipy'')"
  by (simp add: global_name_def module_globals_def)

lemma mne_unbound: "global_name module_globals ''mne'' = Inl (NameError ''mne'')"
  by (simp add: global_name_def module_globals_def)

lemma np_bound: "global_name module_globals ''np'' = Inr ()"
  by (simp add: global_name_def module_globals_def)

subsection \<open>No call returns\<close>

lemma cond_step_not_Inr: "cond_step module_globals a eid tmin tmax c \<noteq> Inr y"
  by (simp add: cond_step_def and_then_eq_Inr scipy_unbound)

lemma cond_loop_not_Inr:
  "cond_loop module_globals a eid tmin tmax (c # cs) cl pa \<noteq> Inr y"
  by (simp add: cond_step_not_Inr split: sum.splits)

lemma hstack_empty:
  "np_hstack n [] = Inl (ValueError ''need at least one array to concatenate'')"
  by (simp add: np_hstack_def)

lemma regress_not_Inr: "regress_continuous module_globals ext a \<noteq> Inr y"
proof
  assume r: "regress_continuous module_globals ext a = Inr y"
  then obtain conds tmin tmax cl pa rows where
    loop: "cond_loop module_globals a (the (arg_event_id a)) tmin tmax conds Map.empty []
             = Inr (cl, pa)"
    and hs: "np_hstack (length (raw_times (arg_raw a))) pa = Inr rows"
    by (auto simp: regress_continuous_def and_then_eq_Inr)
  show False
  proof (cases conds)
    case Nil
    with loop have "pa = []" by simp
    with hs show False by (simp add: hstack_empty)
  next
    case (Cons c cs)
    with loop cond_loop_not_Inr show False by blast
  qed
qed

subsection \<open>Indexed writes\<close>


lemma np_index_Inr_iff:
  "np_index n i = Inr j \<longleftrightarrow>
     - int n \<le> i \<and> i < int n \<and> j = nat (if i < 0 then int n + i else i)"
  by (auto simp: np_index_def)


lemma np_index_out:
  "i < - int n \<or> int n \<le> i \<Longrightarrow> np_index n i = Inl (IndexError ''index is out of bounds for axis 0'')"
  by (auto simp: np_index_def)

lemma np_index_cases:
  "np_index n i = Inl (IndexError ''index is out of bounds for axis 0'') \<or> (\<exists>j<n. np_index n i = Inr j)"
  by (auto simp: np_index_def)

lemma np_setitem_Inr_iff:
  "np_setitem xs i v = Inr s \<longleftrightarrow> (\<exists>j. np_index (length xs) i = Inr j \<and> s = xs[j := v])"
  by (auto simp: np_setitem_def and_then_eq_Inr)

lemma np_setitem_out:
  "i < - int (length xs) \<or> int (length xs) \<le> i \<Longrightarrow>
     np_setitem xs i v = Inl (IndexError ''index is out of bounds for axis 0'')"
  by (simp add: np_setitem_def np_index_out)

lemma np_setitems_length: "np_setitems xs idx v = Inr s \<Longrightarrow> length s = length xs"
proof (induction idx arbitrary: xs)
  case Nil
  then show ?case by simp
next
  case (Cons i idx)
  then show ?case by (auto simp: and_then_eq_Inr np_setitem_Inr_iff)
qed



lemma np_setitems_ok:
  "\<forall>i\<in>set idx. - int (length xs) \<le> i \<and> i < int (length xs) \<Longrightarrow>
     \<exists>s. np_setitems xs idx v = Inr s"
proof (induction idx arbitrary: xs)
  case Nil
  then show ?case by simp
next
  case (Cons i idx)
  then obtain j where "np_index (length xs) i = Inr j"
    by (auto simp: np_index_Inr_iff)
  then have "np_setitem xs i v = Inr (xs[j := v])"
    by (simp add: np_setitem_Inr_iff)
  moreover have "\<exists>s. np_setitems (xs[j := v]) idx v = Inr s"
    using Cons.prems by (intro Cons.IH) simp
  ultimately show ?case by simp
qed

lemma np_setitems_out:
  "\<exists>i\<in>set idx. i < - int (length xs) \<or> int (length xs) \<le> i \<Longrightarrow>
     np_setitems xs idx v = Inl (IndexError ''index is out of bounds for axis 0'')"
proof (induction idx arbitrary: xs)
  case Nil
  then show ?case by simp
next
  case (Cons i idx)
  show ?case
  proof (cases "i < - int (length xs) \<or> int (length xs) \<le> i")
    case True
    then show ?thesis by (simp add: np_setitem_out)
  next
    case False
    then obtain j where "np_index (length xs) i = Inr j"
      by (auto simp: np_index_Inr_iff)
    then have "np_setitem xs i v = Inr (xs[j := v])"
      by (simp add: np_setitem_Inr_iff)
    moreover have "np_setitems (xs[j := v]) idx v
        = Inl (IndexError ''index is out of bounds for axis 0'')"
      using Cons.prems False by (intro Cons.IH) auto
    ultimately show ?thesis by simp
  qed
qed


lemma covariate_loop_length: "covariate_loop xs ws tmin' = Inr s \<Longrightarrow> length s = length xs"
proof (induction ws arbitrary: xs)
  case Nil
  then show ?case by simp
next
  case (Cons w ws)
  then show ?case by (cases w) (auto simp: and_then_eq_Inr np_setitem_Inr_iff)
qed



lemma covariate_loop_ok:
  "\<forall>w\<in>set ws. - int (length xs) \<le> fst w + tmin' \<and> fst w + tmin' < int (length xs) \<Longrightarrow>
     \<exists>s. covariate_loop xs ws tmin' = Inr s"
proof (induction ws arbitrary: xs)
  case Nil
  then show ?case by simp
next
  case (Cons w ws)
  obtain tx v where w: "w = (tx, v)" by (cases w)
  with Cons.prems obtain j where "np_index (length xs) (tx + tmin') = Inr j"
    by (auto simp: np_index_Inr_iff)
  then have "np_setitem xs (tx + tmin') v = Inr (xs[j := v])"
    by (simp add: np_setitem_Inr_iff)
  moreover have "\<exists>s. covariate_loop (xs[j := v]) ws tmin' = Inr s"
    using Cons.prems by (intro Cons.IH) simp
  ultimately show ?case using w by simp
qed

lemma covariate_loop_out:
  "\<exists>w\<in>set ws. fst w + tmin' < - int (length xs) \<or> int (length xs) \<le> fst w + tmin' \<Longrightarrow>
     covariate_loop xs ws tmin' = Inl (IndexError ''index is out of bounds for axis 0'')"
proof (induction ws arbitrary: xs)
  case Nil
  then show ?case by simp
next
  case (Cons w ws)
  obtain tx v where w: "w = (tx, v)" by (cases w)
  show ?case
  proof (cases "tx + tmin' < - int (length xs) \<or> int (length xs) \<le> tx + tmin'")
    case True
    then show ?thesis using w by (simp add: np_setitem_out)
  next
    case False
    then obtain j where "np_index (length xs) (tx + tmin') = Inr j"
      by (auto simp: np_index_Inr_iff)
    then have "np_setitem xs (tx + tmin') v = Inr (xs[j := v])"
      by (simp add: np_setitem_Inr_iff)
    moreover have "covariate_loop (xs[j := v]) ws tmin'
        = Inl (IndexError ''index is out of bounds for axis 0'')"
      using Cons.prems False w by (intro Cons.IH) auto
    ultimately show ?thesis using w by simp
  qed
qed



subsection \<open>Window resolution\<close>


lemma dict_comp_total:
  "\<forall>c\<in>set cs. \<exists>v. f c = Inr v \<Longrightarrow>
     dict_comp f cs acc = Inr (\<lambda>c. if c \<in> set cs then Some (projr (f c)) else acc c)"
proof (induction cs arbitrary: acc)
  case Nil
  then show ?case by simp
next
  case (Cons c cs)
  then obtain v where v: "f c = Inr v" by auto
  have "dict_comp f cs (acc(c \<mapsto> v))
      = Inr (\<lambda>c'. if c' \<in> set cs then Some (projr (f c')) else (acc(c \<mapsto> v)) c')"
    using Cons.prems by (intro Cons.IH) simp
  moreover have "(\<lambda>c'. if c' \<in> set cs then Some (projr (f c')) else (acc(c \<mapsto> v)) c')
      = (\<lambda>c'. if c' \<in> set (c # cs) then Some (projr (f c')) else acc c')"
    using v by (auto simp: fun_eq_iff)
  ultimately show ?case using v by simp
qed

lemma window_samples_numeric:
  "numeric_spec spec \<Longrightarrow>
     window_samples mul sf dflt spec c = Inr (py_int (mul (seconds_for spec dflt c) sf))"
proof (cases spec)
  case (Seconds s)
  then show ?thesis by simp
next
  case (PerCond d)
  assume n: "numeric_spec spec"
  show ?thesis
  proof (cases "map_of d c")
    case None
    with PerCond show ?thesis by simp
  next
    case (Some v)
    then have "(c, v) \<in> set d" by (rule map_of_SomeD)
    then have "v \<in> snd ` set d" by force
    with n PerCond obtain s where "v = Some s" by (cases v) auto
    with Some PerCond show ?thesis by simp
  qed
next
  case NoWindow
  assume "numeric_spec spec"
  with NoWindow show ?thesis by simp
qed

lemma resolve_tmin_numeric:
  "numeric_spec spec \<Longrightarrow>
     resolve_tmin mul sf conds spec =
       Inr (\<lambda>c. if c \<in> set conds
                then Some (py_int (mul (seconds_for spec (- 1 / 10) c) sf)) else None)"
  by (simp add: resolve_tmin_def dict_comp_total window_samples_numeric cong: if_cong)

lemma resolve_tmax_numeric:
  assumes "numeric_spec spec"
  shows "resolve_tmax mul sf keys conds spec =
       Inr (\<lambda>c. if c \<in> set (tmax_conds spec keys conds)
                then Some (py_int (mul (seconds_for spec 1 c) sf)) else None)"
proof -
  let ?f = "window_samples mul sf 1 spec"
  have f: "?f c = Inr (py_int (mul (seconds_for spec 1 c) sf))" for c
    using assms by (rule window_samples_numeric)
  have "resolve_tmax mul sf keys conds spec
      = dict_comp ?f (tmax_conds spec keys conds) Map.empty"
    by (cases spec) (simp_all add: resolve_tmax_def)
  also have "\<dots> = Inr (\<lambda>c. if c \<in> set (tmax_conds spec keys conds)
                           then Some (projr (?f c)) else None)"
    by (rule dict_comp_total) (simp add: f)
  finally show ?thesis by (simp only: f sum.sel cong: if_cong)
qed

lemma py_int_toward_zero:
  "\<bar>of_int (py_int x)\<bar> \<le> \<bar>x\<bar> \<and> \<bar>x - of_int (py_int x)\<bar> < 1"
proof (cases "0 \<le> x")
  case True
  have p: "py_int x = \<lfloor>x\<rfloor>" using True by (simp add: py_int_def)
  have a: "0 \<le> (of_int \<lfloor>x\<rfloor> :: rat)" using True by simp
  have b: "of_int \<lfloor>x\<rfloor> \<le> x" by (rule of_int_floor_le)
  have c: "x < of_int \<lfloor>x\<rfloor> + 1" by linarith
  show ?thesis unfolding p using a b c True by linarith
next
  case False
  have p: "py_int x = \<lceil>x\<rceil>" using False by (simp add: py_int_def)
  have a: "(of_int \<lceil>x\<rceil> :: rat) \<le> 0" using False by (simp add: ceiling_le_zero)
  have b: "x \<le> of_int \<lceil>x\<rceil>" by (rule le_of_int_ceiling)
  have c: "of_int \<lceil>x\<rceil> < x + 1" by linarith
  show ?thesis unfolding p using a b c False by linarith
qed

lemma py_int_half: "py_int (- (25 / 2)) = - 12"
  by code_simp

lemma py_int_fifty: "py_int 50 = 50"
  by (simp add: py_int_def)


subsection \<open>Errors of the indicator construction\<close>

lemma np_setitems_error:
  "np_setitems xs idx v = Inl e \<Longrightarrow> e = IndexError ''index is out of bounds for axis 0''"
proof (cases "\<forall>i\<in>set idx. - int (length xs) \<le> i \<and> i < int (length xs)")
  case True
  then obtain s where "np_setitems xs idx v = Inr s" using np_setitems_ok by blast
  moreover assume "np_setitems xs idx v = Inl e"
  ultimately show ?thesis by simp
next
  case False
  then have "\<exists>i\<in>set idx. i < - int (length xs) \<or> int (length xs) \<le> i"
    by (meson not_le)
  then have "np_setitems xs idx v = Inl (IndexError ''index is out of bounds for axis 0'')"
    by (rule np_setitems_out)
  moreover assume "np_setitems xs idx v = Inl e"
  ultimately show ?thesis by simp
qed

lemma covariate_loop_error:
  "covariate_loop xs ws tmin' = Inl e \<Longrightarrow> e = IndexError ''index is out of bounds for axis 0''"
proof (cases "\<forall>w\<in>set ws. - int (length xs) \<le> fst w + tmin' \<and> fst w + tmin' < int (length xs)")
  case True
  then obtain s where "covariate_loop xs ws tmin' = Inr s" using covariate_loop_ok by blast
  moreover assume "covariate_loop xs ws tmin' = Inl e"
  ultimately show ?thesis by simp
next
  case False
  then have "\<exists>w\<in>set ws. fst w + tmin' < - int (length xs) \<or> int (length xs) \<le> fst w + tmin'"
    by (meson not_le)
  then have "covariate_loop xs ws tmin' = Inl (IndexError ''index is out of bounds for axis 0'')"
    by (rule covariate_loop_out)
  moreover assume "covariate_loop xs ws tmin' = Inl e"
  ultimately show ?thesis by simp
qed

lemma indicator_not_negative_dimensions:
  "indicator a event_id cond tmin' samples
     \<noteq> Inl (ValueError ''negative dimensions are not allowed'')"
proof
  assume e: "indicator a event_id cond tmin' samples
     = Inl (ValueError ''negative dimensions are not allowed'')"
  show False
  proof (cases "map_of event_id cond")
    case (Some v)
    with e have "binary_samples (arg_events a) (ids_of v) tmin' samples
        = Inl (ValueError ''negative dimensions are not allowed'')"
      by (simp add: indicator_def)
    then show False by (auto simp: binary_samples_def dest: np_setitems_error)
  next
    case None
    show False
    proof (cases "arg_covariates a")
      case n: None
      with e None show False by (simp add: indicator_def)
    next
      case (Some covariates)
      show False
      proof (cases "map_of covariates cond")
        case n: None
        with e None Some show False by (simp add: indicator_def dict_item_def)
      next
        case s: (Some cov)
        with e None Some have "covariate_samples (arg_events a) cov cond tmin' samples
            = Inl (ValueError ''negative dimensions are not allowed'')"
          by (simp add: indicator_def dict_item_def)
        then show False
          by (auto simp: covariate_samples_def length_message_def split: if_splits
              dest: covariate_loop_error)
      qed
    qed
  qed
qed


subsection \<open>What the later stages would do\<close>

lemma toeplitz_contract:
  assumes "t < length c" and "l < n"
  shows "length (toeplitz c (replicate n 0)) = length c"
    and "length (toeplitz c (replicate n 0) ! t) = n"
    and "toeplitz c (replicate n 0) ! t ! l = (if l \<le> t then c ! (t - l) else 0)"
  using assms by (simp_all add: toeplitz_def)

lemma cond_step_result:
  "cond_step genv a event_id tmin tmax cond = Inr (n, m) \<Longrightarrow>
     n = 1 \<and> (\<exists>tmin' tmax' samples. tmin cond = Some tmin' \<and> tmax cond = Some tmax'
        \<and> tmin' \<le> tmax'
        \<and> indicator a event_id cond tmin' (replicate (length (raw_times (arg_raw a))) 0)
            = Inr samples
        \<and> m = toeplitz samples (replicate (nat (tmax' - tmin')) 0))"
  by (auto simp: cond_step_def and_then_eq_Inr dict_item_def np_zeros_def cond_length_of_def
      np_nonzero_def split: option.splits if_splits)

lemma cond_loop_lengths:
  "cond_loop genv a event_id tmin tmax conds cl pa = Inr (cl', pa') \<Longrightarrow>
     cl' c = (if c \<in> set conds then Some 1 else cl c)"
proof (induction conds arbitrary: cl pa)
  case Nil
  then show ?case by simp
next
  case (Cons d conds)
  from Cons.prems obtain n m where
    st: "cond_step genv a event_id tmin tmax d = Inr (n, m)"
    and rest: "cond_loop genv a event_id tmin tmax conds (cl(d \<mapsto> n)) (pa @ [m]) = Inr (cl', pa')"
    by (auto split: sum.splits)
  from st have "n = 1" by (auto dest: cond_step_result)
  with Cons.IH [OF rest] show ?case by auto
qed

lemma build_ev_dict_nave:
  "build_ev_dict genv ext sf coefs tmin tmax cond_length conds cum ev_dict = Inr ev \<Longrightarrow>
   c \<in> set conds \<Longrightarrow>
     \<exists>e. ev c = Some e \<and> cond_length c = Some (ev_nave e)"
proof (induction conds arbitrary: cum ev_dict)
  case Nil
  then show ?case by simp
next
  case (Cons d conds)
  from Cons.prems(1) obtain lo hi nave where
    nave: "cond_length d = Some nave"
    and rest: "build_ev_dict genv ext sf coefs tmin tmax cond_length conds
         (cum + nat (hi - lo))
         (ev_dict(d \<mapsto>
            \<lparr>ev_data = map (\<lambda>row. take (nat (hi - lo)) (drop cum row)) coefs,
             ev_tmin = fdiv ext (of_int lo) sf,
             ev_comment = d,
             ev_nave = nave,
             ev_kind = ''mean''\<rparr>)) = Inr ev"
    by (auto simp: and_then_eq_Inr dict_item_def split: option.splits)
  show ?case
  proof (cases "c \<in> set conds")
    case True
    with rest show ?thesis by (rule Cons.IH)
  next
    case False
    with Cons.prems(2) have cd: "c = d" by simp
    have keep: "build_ev_dict genv ext sf coefs tmin tmax cond_length cs k evd = Inr ev' \<Longrightarrow>
        x \<notin> set cs \<Longrightarrow> ev' x = evd x" for cs k evd ev' x
    proof (induction cs arbitrary: k evd)
      case Nil
      then show ?case by simp
    next
      case (Cons y cs)
      then show ?case
        by (auto simp: and_then_eq_Inr dict_item_def split: option.splits)
    qed
    from keep [OF rest False] cd nave show ?thesis by simp
  qed
qed

lemma returned_trial_count:
  assumes "regress_continuous genv ext a = Inr ev"
    and "conds_of a = Inr conds" and "c \<in> set conds"
  shows "\<exists>e. ev c = Some e \<and> ev_nave e = 1"
proof -
  from assms(1,2) obtain tmin tmax cl pa coefs where
    loop: "cond_loop genv a (the (arg_event_id a)) tmin tmax conds Map.empty [] = Inr (cl, pa)"
    and build: "build_ev_dict genv ext (info_sfreq (arg_raw a)) coefs tmin tmax cl conds 0
                  Map.empty = Inr ev"
    by (auto simp: regress_continuous_def and_then_eq_Inr Let_def)
  from loop assms(3) have "cl c = Some 1" by (simp add: cond_loop_lengths)
  with build_ev_dict_nave [OF build assms(3)] show ?thesis by auto
qed

lemma disabled_rejection_never_returns:
  "regress_continuous genv ext (a\<lparr>arg_reject := RejectNone\<rparr>) \<noteq> Inr ev"
  by (auto simp: regress_continuous_def and_then_eq_Inr rejected_inds_def reject_block_def)

subsection \<open>The concrete calls\<close>

lemma bound_names_can_return:
  "\<exists>ext. \<not> isl (regress_continuous (''scipy'' # ''mne'' # module_globals) ext tiny_call)"
proof -
  have "\<not> isl (regress_continuous (''scipy'' # ''mne'' # module_globals)
           \<lparr>fmul = (*), fdiv = (/), np_dot = (\<lambda>A B. A), linalg_inv = Inr,
            reject_data_segments = (\<lambda>d r t. [])\<rparr> tiny_call)"
    by code_simp
  then show ?thesis by blast
qed

lemma scenario_raises:
  "regress_continuous module_globals (ext\<lparr>fmul := (*)\<rparr>) scenario = Inl (NameError ''scipy'')"
  by (simp add: regress_continuous_def scenario_def event_id_keys_def conds_of_def
      resolve_windows_def resolve_tmin_def resolve_tmax_def py_int_def cond_step_def dict_item_def
      np_bound scipy_unbound np_zeros_def indicator_def binary_samples_def binary_index_def
      np_setitem_def np_index_def)

lemma scenario_indicator:
  "indicator scenario [(''a'', OneId 1)] ''a'' (- 10) (replicate 1000 0)
     = Inr ((replicate 1000 0)[90 := 1, 490 := 1, 890 := 1])"
  by (simp add: scenario_def indicator_def binary_samples_def binary_index_def np_setitem_def
      np_index_def)

lemma count_update:
  "j < length xs \<Longrightarrow> xs ! j = 0 \<Longrightarrow> v \<noteq> (0::rat) \<Longrightarrow>
     length (filter (\<lambda>x. x \<noteq> 0) (xs[j := v])) = Suc (length (filter (\<lambda>x. x \<noteq> 0) xs))"
proof (induction xs arbitrary: j)
  case Nil
  then show ?case by simp
next
  case (Cons x xs)
  then show ?case by (cases j) auto
qed


text \<open>
  The design matrix of \<open>tiny_call\<close>, whose two windows do not overlap: in every kept
  row the lag columns add up to the intercept column.
\<close>

lemma tiny_call_design_collinear:
  "indicator tiny_call [(''a'', OneId 1)] ''a'' 0 (replicate 6 0) = Inr [0, 1, 0, 1, 0, 0]
   \<and> np_hstack 6 [toeplitz [0, 1, 0, 1, 0, 0] [0, 0]]
       = Inr [[0, 0], [1, 0], [0, 1], [1, 0], [0, 1], [0, 0]]
   \<and> has_val_of [[0, 0], [1, 0], [0, 1], [1, 0], [0, 1], [0, 0]]
       = [False, True, True, True, True, False]
   \<and> design_matrix [[0, 0], [1, 0], [0, 1], [1, 0], [0, 1], [0, 0]]
        [False, True, True, True, True, False]
       = [[1, 0, 1], [0, 1, 1], [1, 0, 1], [0, 1, 1]]"
  by code_simp

text \<open>
  Claim C1. With the names the module binds, \<open>regress_continuous\<close> raises an
  exception on every input and returns no mapping: the loop body evaluates the unbound
  name \<open>scipy\<close> at the Toeplitz construction, an empty list of conditions is refused
  by \<open>np.hstack\<close>, and the two later uses of unbound names (\<open>scipy\<close> at the solve,
  \<open>mne\<close> at the construction of the responses) raise NameError as well.
\<close>

theorem regress_continuous_always_raises:
  "(\<exists>e. regress_continuous module_globals ext a = Inl e)
   \<and> (\<exists>e. cond_step module_globals a event_id tmin tmax cond = Inl e)
   \<and> solve module_globals ext X Y = Inl (NameError ''scipy'')
   \<and> build_ev_dict module_globals ext sf coefs tmin tmax cond_length (cond # rest) cum ev_dict
       \<in> {Inl (KeyError cond), Inl (NameError ''mne'')}"
proof -
  have 1: "\<exists>e. regress_continuous module_globals ext a = Inl e"
    by (rule never_Inr) (rule regress_not_Inr)
  have 2: "\<exists>e. cond_step module_globals a event_id tmin tmax cond = Inl e"
    by (rule never_Inr) (rule cond_step_not_Inr)
  have 3: "solve module_globals ext X Y = Inl (NameError ''scipy'')"
    by (simp add: solve_def np_bound scipy_unbound)
  have 4: "build_ev_dict module_globals ext sf coefs tmin tmax cond_length (cond # rest) cum
             ev_dict \<in> {Inl (KeyError cond), Inl (NameError ''mne'')}"
    by (cases "tmin cond"; cases "tmax cond") (simp_all add: dict_item_def mne_unbound)
  from 1 2 3 4 show ?thesis by blast
qed

lemma tiny_call_raises:
  "regress_continuous module_globals (ext\<lparr>fmul := (*)\<rparr>) tiny_call = Inl (NameError ''scipy'')"
  by (simp add: regress_continuous_def tiny_call_def event_id_keys_def conds_of_def
      resolve_windows_def resolve_tmin_def resolve_tmax_def py_int_def cond_step_def dict_item_def
      np_bound scipy_unbound np_zeros_def indicator_def binary_samples_def binary_index_def
      np_setitem_def np_index_def)

lemma tiny_call_average:
  "time_locked_average (hd (raw_data (arg_raw tiny_call))) (map fst (arg_events tiny_call)) 0 2
     = [1, 2]"
  by code_simp

lemma tiny_call_windows:
  "window_samples (*) (info_sfreq (arg_raw tiny_call)) (- 1 / 10) (arg_tmin tiny_call) ''a'' = Inr 0
   \<and> window_samples (*) (info_sfreq (arg_raw tiny_call)) 1 (arg_tmax tiny_call) ''a'' = Inr 2"
  by (simp add: tiny_call_def py_int_def)

lemma null_vector: "mat_vec [[1, 0, 1], [0, 1, 1], [1, 0, 1], [0, 1, 1]] [1, 1, - 1] = [0, 0, 0, 0]"
  by (simp add: mat_vec_def)

lemma solve_never_singular_error: "solve module_globals ext X Y \<noteq> Inl (LinAlgError s)"
  by (simp add: solve_def np_bound scipy_unbound)

lemma solve_is_inverse:
  "solve (''scipy'' # module_globals) ext X Y =
     and_then (linalg_inv ext (np_dot ext (transpose X) X)) (\<lambda>xtx_inv.
       Inr (transpose (np_dot ext xtx_inv (np_dot ext (transpose X) (transpose Y)))))"
  by (simp add: solve_def global_name_def module_globals_def)


subsection \<open>Events near the edges of the recording\<close>





subsection \<open>Resolved windows\<close>

text \<open>
  Claim C7, as amended. For numeric window specs the resolver returns two mappings;
  \<open>tmin\<close> maps every condition, under both forms of the spec, to \<open>int(seconds *
  sfreq)\<close> with the default -0.1 s; \<open>tmax\<close> does so with the default 1 s for every
  condition under the dict form, and for the keys of \<open>event_id\<close> under the scalar
  form. \<open>int\<close> truncates toward zero: the result is never larger in magnitude than
  the product and differs from it by less than 1.
\<close>

theorem window_resolution_truncates:
  "(numeric_spec (arg_tmin a) \<and> numeric_spec (arg_tmax a) \<longrightarrow>
     (\<exists>tmin tmax. resolve_windows mul a keys conds = Inr (tmin, tmax)
        \<and> (\<forall>c\<in>set conds.
             tmin c = Some (py_int (mul (seconds_for (arg_tmin a) (- 1 / 10) c)
                                         (info_sfreq (arg_raw a)))))
        \<and> (\<forall>c\<in>set (tmax_conds (arg_tmax a) keys conds).
             tmax c = Some (py_int (mul (seconds_for (arg_tmax a) 1 c)
                                         (info_sfreq (arg_raw a)))))))
   \<and> (\<forall>x. \<bar>of_int (py_int x)\<bar> \<le> \<bar>x\<bar> \<and> \<bar>x - of_int (py_int x)\<bar> < 1)"
  by (simp add: resolve_windows_def resolve_tmin_numeric resolve_tmax_numeric py_int_toward_zero)

theorem window_resolution_truncates_witness:
  "\<exists>tmin tmax. resolve_windows (*) half_sample [''a''] [''a''] = Inr (tmin, tmax)
      \<and> tmin ''a'' = Some (- 12) \<and> tmax ''a'' = Some 50"
proof -
  have n: "numeric_spec (arg_tmin half_sample) \<and> numeric_spec (arg_tmax half_sample)"
    by (simp add: half_sample_def scenario_def)
  from window_resolution_truncates [of half_sample "(*)" "[''a'']" "[''a'']"] n
  obtain tmin tmax where r: "resolve_windows (*) half_sample [''a''] [''a''] = Inr (tmin, tmax)"
    and lo: "\<forall>c\<in>set [''a'']. tmin c = Some (py_int (seconds_for (arg_tmin half_sample) (- 1 / 10) c
                                         * info_sfreq (arg_raw half_sample)))"
    and hi: "\<forall>c\<in>set (tmax_conds (arg_tmax half_sample) [''a''] [''a'']).
             tmax c = Some (py_int (seconds_for (arg_tmax half_sample) 1 c
                                         * info_sfreq (arg_raw half_sample)))"
    by blast
  from lo have "tmin ''a'' = Some (- 12)"
    by (simp add: half_sample_def scenario_def py_int_half)
  moreover from hi have "tmax ''a'' = Some 50"
    by (simp add: half_sample_def scenario_def py_int_fifty)
  ultimately show ?thesis using r by blast
qed


text \<open>
  The claim as stated fails for a negative product that is no integer: -0.125 s at
  100 Hz is -12.5 samples, which \<open>int\<close> makes -12 and floor would make -13.
\<close>

theorem floor_counterexample:
  "window_samples (*) 100 (- 1 / 10) (Seconds (- 1 / 8)) ''a'' = Inr (- 12)
   \<and> \<lfloor>(- 1 / 8) * (100::rat)\<rfloor> = - 13"
  by code_simp

subsection \<open>Windows that end before they start\<close>

text \<open>
  Claim C6, as amended. Window resolution does not compare \<open>tmax_samples\<close> with
  \<open>tmin_samples\<close>: on numeric window specs it never fails. A window with
  \<open>tmax_samples < tmin_samples\<close> is refused later, in the predictor loop, when the
  loop body runs for that condition: allocating a negative number of lags raises a
  ValueError before the indicator and the lag matrix of the condition are built. A
  window with \<open>tmax_samples = tmin_samples\<close> (or larger) never raises that error.
\<close>

theorem window_order_unchecked:
  "(numeric_spec (arg_tmin a) \<and> numeric_spec (arg_tmax a) \<longrightarrow>
      \<not> isl (resolve_windows mul a keys conds))
   \<and> (''np'' \<in> set genv \<and> tmin cond = Some lo \<and> tmax cond = Some hi \<and> hi < lo \<longrightarrow>
      cond_step genv a event_id tmin tmax cond
        = Inl (ValueError ''negative dimensions are not allowed''))
   \<and> (tmin cond = Some lo \<and> tmax cond = Some hi \<and> lo \<le> hi \<longrightarrow>
      cond_step genv a event_id tmin tmax cond
        \<noteq> Inl (ValueError ''negative dimensions are not allowed''))"
proof (intro conjI impI)
  assume "numeric_spec (arg_tmin a) \<and> numeric_spec (arg_tmax a)"
  then show "\<not> isl (resolve_windows mul a keys conds)"
    by (simp add: resolve_windows_def resolve_tmin_numeric resolve_tmax_numeric)
next
  assume "''np'' \<in> set genv \<and> tmin cond = Some lo \<and> tmax cond = Some hi \<and> hi < lo"
  then show "cond_step genv a event_id tmin tmax cond
        = Inl (ValueError ''negative dimensions are not allowed'')"
    by (simp add: cond_step_def dict_item_def global_name_def np_zeros_def)
next
  assume w: "tmin cond = Some lo \<and> tmax cond = Some hi \<and> lo \<le> hi"
  show "cond_step genv a event_id tmin tmax cond
        \<noteq> Inl (ValueError ''negative dimensions are not allowed'')"
  proof
    assume e: "cond_step genv a event_id tmin tmax cond
        = Inl (ValueError ''negative dimensions are not allowed'')"
    let ?zeros = "replicate (length (raw_times (arg_raw a))) (0::rat)"
    show False
    proof (cases "indicator a event_id cond lo ?zeros")
      case (Inl err)
      with e w have "err = ValueError ''negative dimensions are not allowed''"
        by (simp add: cond_step_def dict_item_def global_name_def np_zeros_def split: if_splits)
      with Inl indicator_not_negative_dimensions show False by blast
    next
      case (Inr s)
      with e w show False
        by (simp add: cond_step_def dict_item_def global_name_def np_zeros_def split: if_splits)
    qed
  qed
qed

theorem window_order_unchecked_witness:
  "\<not> isl (resolve_windows (*) flat_window [''a''] [''a''])
   \<and> cond_step module_globals scenario [(''a'', OneId 1)] [''a'' \<mapsto> 50] [''a'' \<mapsto> 20] ''a''
       = Inl (ValueError ''negative dimensions are not allowed'')
   \<and> cond_step module_globals flat_window [(''a'', OneId 1)] [''a'' \<mapsto> 50] [''a'' \<mapsto> 50] ''a''
       \<noteq> Inl (ValueError ''negative dimensions are not allowed'')"
proof -
  have 1: "\<not> isl (resolve_windows (*) flat_window [''a''] [''a''])"
    using window_order_unchecked [THEN conjunct1, of flat_window "(*)" "[''a'']" "[''a'']"]
    by (simp add: flat_window_def scenario_def)
  have 2: "cond_step module_globals scenario [(''a'', OneId 1)] [''a'' \<mapsto> 50] [''a'' \<mapsto> 20] ''a''
       = Inl (ValueError ''negative dimensions are not allowed'')"
    using window_order_unchecked [THEN conjunct2, THEN conjunct1, of module_globals
        "[''a'' \<mapsto> 50]" "''a''" 50 "[''a'' \<mapsto> 20]" 20 scenario "[(''a'', OneId 1)]"]
    by (simp add: module_globals_def)
  have 3: "cond_step module_globals flat_window [(''a'', OneId 1)] [''a'' \<mapsto> 50] [''a'' \<mapsto> 50] ''a''
       \<noteq> Inl (ValueError ''negative dimensions are not allowed'')"
    using window_order_unchecked [THEN conjunct2, THEN conjunct2, of
        "[''a'' \<mapsto> 50]" "''a''" 50 "[''a'' \<mapsto> 50]" 50 module_globals flat_window "[(''a'', OneId 1)]"]
    by simp
  from 1 2 3 show ?thesis by blast
qed


text \<open>
  The claim as stated fails for a window from 0.5 s to 0.5 s: both ends resolve to 50
  samples, resolution returns, and the loop body runs up to the Toeplitz construction
  without any error about the window.
\<close>

theorem flat_window_counterexample:
  "window_samples (*) (info_sfreq (arg_raw flat_window)) (- 1 / 10) (arg_tmin flat_window) ''a''
     = Inr 50
   \<and> window_samples (*) (info_sfreq (arg_raw flat_window)) 1 (arg_tmax flat_window) ''a''
     = Inr 50
   \<and> \<not> isl (resolve_windows (*) flat_window [''a''] [''a''])
   \<and> cond_step module_globals flat_window [(''a'', OneId 1)] [''a'' \<mapsto> 50] [''a'' \<mapsto> 50] ''a''
       = Inl (NameError ''scipy'')"
  by (simp add: flat_window_def scenario_def resolve_windows_def resolve_tmin_def
      resolve_tmax_def py_int_def cond_step_def dict_item_def np_bound scipy_unbound np_zeros_def
      indicator_def binary_samples_def binary_index_def np_setitem_def np_index_def)

subsection \<open>Trial counts\<close>

text \<open>
  Claim C3 against the code. In the scenario of the spec (events at the samples 100,
  500 and 900, window from -10 to 50 samples) the indicator vector of the condition has
  three nonzero entries, at 90, 490 and 890. Line 241 takes the length of the tuple that
  \<open>np.nonzero\<close> returns, which is 1 for every vector, and the call itself ends in the
  NameError of line 245, so that no response object carries a trial count of 3.
\<close>

theorem trial_count_is_one:
  "indicator scenario [(''a'', OneId 1)] ''a'' (- 10) (replicate 1000 0)
     = Inr ((replicate 1000 0)[90 := 1, 490 := 1, 890 := 1])
   \<and> length (filter (\<lambda>x. x \<noteq> 0) ((replicate 1000 (0::rat))[90 := 1, 490 := 1, 890 := 1])) = 3
   \<and> cond_length_of ((replicate 1000 0)[90 := 1, 490 := 1, 890 := 1]) = 1
   \<and> regress_continuous module_globals (ext\<lparr>fmul := (*)\<rparr>) scenario = Inl (NameError ''scipy'')"
  by (simp add: scenario_indicator count_update scenario_raises cond_length_of_def np_nonzero_def)


subsection \<open>Disabled rejection\<close>

text \<open>
  Claim C5 against the code. With \<open>reject=None\<close> the statement of lines 264 and 265
  reads the local name \<open>_reject_data_segments\<close>, which only the branch for
  \<open>reject\<close> not None binds: it raises UnboundLocalError for every data and window
  length. The call of the scenario with rejection disabled does not get that far: it
  ends in the NameError of line 245.
\<close>

theorem disabled_rejection_raises:
  "rejected_inds ext data RejectNone tstep = Inl (UnboundLocalError ''_reject_data_segments'')
   \<and> regress_continuous module_globals (ext\<lparr>fmul := (*)\<rparr>) scenario_no_reject
       = Inl (NameError ''scipy'')"
  by (simp add: rejected_inds_def reject_block_def
      regress_continuous_def scenario_no_reject_def scenario_def event_id_keys_def conds_of_def
      resolve_windows_def resolve_tmin_def resolve_tmax_def py_int_def cond_step_def dict_item_def
      np_bound scipy_unbound np_zeros_def indicator_def binary_samples_def binary_index_def
      np_setitem_def np_index_def)


subsection \<open>Covariates of the wrong length\<close>

text \<open>
  Claim C8 against the code. Ten events of the condition \<open>a\<close> and a covariate
  \<open>c\<close> with five values: the loop runs for \<open>a\<close> first and ends in the NameError
  of line 245; with \<open>scipy\<close> and \<open>mne\<close> bound, the scalar \<open>tmax\<close> has no entry
  for \<open>c\<close> (line 212) and line 224 raises KeyError. The check of lines 235 to 238,
  run on its own, gives the ValueError whose message names \<open>c\<close>.
\<close>

theorem covariate_length_error_unreached:
  "regress_continuous module_globals (ext\<lparr>fmul := (*)\<rparr>) short_covariate
     = Inl (NameError ''scipy'')
   \<and> regress_continuous (''scipy'' # ''mne'' # module_globals) (ext\<lparr>fmul := (*)\<rparr>) short_covariate
     = Inl (KeyError ''c'')
   \<and> covariate_samples (arg_events short_covariate) [1, 2, 3, 4, 5] ''c'' (- 10) (replicate 200 0)
     = Inl (ValueError (length_message ''c''))"
  by (simp add: regress_continuous_def short_covariate_def event_id_keys_def conds_of_def
      resolve_windows_def resolve_tmin_def resolve_tmax_def py_int_def cond_step_def dict_item_def
      global_name_def module_globals_def np_zeros_def indicator_def binary_samples_def
      binary_index_def np_setitem_def np_index_def covariate_samples_def)


subsection \<open>Lag matrices\<close>

text \<open>
  Claim C9 against the code. In the scenario of the spec the loop body builds the
  indicator vector and then evaluates the unbound name \<open>scipy\<close>: no lag matrix is
  built for any condition, and the call ends in that NameError.
\<close>

theorem lag_matrix_not_built:
  "cond_step module_globals scenario [(''a'', OneId 1)] [''a'' \<mapsto> - 10] [''a'' \<mapsto> 50] ''a''
     = Inl (NameError ''scipy'')
   \<and> regress_continuous module_globals (ext\<lparr>fmul := (*)\<rparr>) scenario = Inl (NameError ''scipy'')"
  by (simp add: scenario_raises)
     (simp add: scenario_def cond_step_def dict_item_def np_bound scipy_unbound np_zeros_def
      indicator_def binary_samples_def binary_index_def np_setitem_def np_index_def)


subsection \<open>Windows that do not overlap\<close>

text \<open>
  Claim C2 against the code. In \<open>tiny_call\<close> the two events of the condition are at
  the samples 1 and 3 and the window is two samples long, so the two response windows
  do not overlap; the signal repeats the response 1, 2 after each event, and its
  time-locked average is 1, 2. The call gives no regression solution to compare with
  that average: it ends in the NameError of line 245.
\<close>

theorem non_overlap_no_solution:
  "window_samples (*) (info_sfreq (arg_raw tiny_call)) (- 1 / 10) (arg_tmin tiny_call) ''a'' = Inr 0
   \<and> window_samples (*) (info_sfreq (arg_raw tiny_call)) 1 (arg_tmax tiny_call) ''a'' = Inr 2
   \<and> map fst (arg_events tiny_call) = [1, 3] \<and> (1::int) + (2 - 0) \<le> 3
   \<and> time_locked_average (hd (raw_data (arg_raw tiny_call)))
        (map fst (arg_events tiny_call)) 0 2 = [1, 2]
   \<and> regress_continuous module_globals (ext\<lparr>fmul := (*)\<rparr>) tiny_call
       = Inl (NameError ''scipy'')"
  using tiny_call_windows tiny_call_average tiny_call_raises [of ext]
  by (simp add: tiny_call_def)


subsection \<open>The solve on a rank-deficient design\<close>

text \<open>
  Claim C4 against the code. The design matrix of \<open>tiny_call\<close> is rank-deficient: in
  every row the two lag columns add up to the intercept, so that the vector 1, 1, -1 is
  mapped to zero. The solve of lines 275 and 276 raises NameError on it, as on every
  design matrix, and never the error of a singular matrix. With the name \<open>scipy\<close>
  bound, the solve is the inverse of the normal matrix, taken by \<open>linalg.inv\<close>, and
  two matrix products.
\<close>

theorem solve_raises_name_error:
  "indicator tiny_call [(''a'', OneId 1)] ''a'' 0 (replicate 6 0) = Inr [0, 1, 0, 1, 0, 0]
   \<and> np_hstack 6 [toeplitz [0, 1, 0, 1, 0, 0] [0, 0]]
       = Inr [[0, 0], [1, 0], [0, 1], [1, 0], [0, 1], [0, 0]]
   \<and> has_val_of [[0, 0], [1, 0], [0, 1], [1, 0], [0, 1], [0, 0]]
       = [False, True, True, True, True, False]
   \<and> design_matrix [[0, 0], [1, 0], [0, 1], [1, 0], [0, 1], [0, 0]]
        [False, True, True, True, True, False]
       = [[1, 0, 1], [0, 1, 1], [1, 0, 1], [0, 1, 1]]
   \<and> mat_vec [[1, 0, 1], [0, 1, 1], [1, 0, 1], [0, 1, 1]] [1, 1, - 1] = [0, 0, 0, 0]
   \<and> solve module_globals ext [[1, 0, 1], [0, 1, 1], [1, 0, 1], [0, 1, 1]] Y
       = Inl (NameError ''scipy'')
   \<and> (\<forall>s. solve module_globals ext X Y \<noteq> Inl (LinAlgError s))
   \<and> solve (''scipy'' # module_globals) ext X Y =
       and_then (linalg_inv ext (np_dot ext (transpose X) X)) (\<lambda>xtx_inv.
         Inr (transpose (np_dot ext xtx_inv (np_dot ext (transpose X) (transpose Y)))))
   \<and> regress_continuous module_globals (ext\<lparr>fmul := (*)\<rparr>) tiny_call
       = Inl (NameError ''scipy'')"
proof -
  have s: "solve module_globals ext [[1, 0, 1], [0, 1, 1], [1, 0, 1], [0, 1, 1]] Y
       = Inl (NameError ''scipy'')"
    by (simp add: solve_def np_bound scipy_unbound)
  from tiny_call_design_collinear null_vector s solve_never_singular_error
    solve_is_inverse [of ext X Y] tiny_call_raises [of ext]
  show ?thesis by blast
qed

end
